theory Spec2Isabelle
  imports Main "HOL-Library.Finite_Map"
begin

section \<open>Tenant identifier extraction (x/tenant\_middleware.go)\<close>

text \<open>
  Go strings are byte sequences; they are modelled as \<^typ>\<open>string\<close> (a list of 8-bit
  characters). The three library functions the extractor calls are written out.

  \<open>strings.TrimSpace\<close> removes the leading and the trailing white-space characters of
  a UTF-8 string, as \<open>unicode.IsSpace\<close> defines them: the ASCII characters tab, line
  feed, vertical tab, form feed, carriage return and space, and the code points U+0085,
  U+00A0, U+1680, U+2000 to U+200A, U+2028, U+2029, U+202F, U+205F and U+3000. The
  library decodes one character at a time, forwards at the front and backwards at the
  end. A string begins with a white-space character exactly when it begins with the
  UTF-8 encoding of one, and it ends with one exactly when it ends with such an
  encoding (the backward decoder looks for the nearest byte that starts a character, and
  every byte after the first of an encoding is a continuation byte), so the model strips
  encodings.
\<close>

definition space_encodings :: "string list" where
  "space_encodings =
     [[CHR 0x09], [CHR 0x0A], [CHR 0x0B], [CHR 0x0C], [CHR 0x0D], [CHR 0x20],
      [CHR 0xC2, CHR 0x85], [CHR 0xC2, CHR 0xA0],
      [CHR 0xE1, CHR 0x9A, CHR 0x80],
      [CHR 0xE2, CHR 0x80, CHR 0x80], [CHR 0xE2, CHR 0x80, CHR 0x81],
      [CHR 0xE2, CHR 0x80, CHR 0x82], [CHR 0xE2, CHR 0x80, CHR 0x83],
      [CHR 0xE2, CHR 0x80, CHR 0x84], [CHR 0xE2, CHR 0x80, CHR 0x85],
      [CHR 0xE2, CHR 0x80, CHR 0x86], [CHR 0xE2, CHR 0x80, CHR 0x87],
      [CHR 0xE2, CHR 0x80, CHR 0x88], [CHR 0xE2, CHR 0x80, CHR 0x89],
      [CHR 0xE2, CHR 0x80, CHR 0x8A],
      [CHR 0xE2, CHR 0x80, CHR 0xA8], [CHR 0xE2, CHR 0x80, CHR 0xA9],
      [CHR 0xE2, CHR 0x80, CHR 0xAF],
      [CHR 0xE2, CHR 0x81, CHR 0x9F],
      [CHR 0xE3, CHR 0x80, CHR 0x80]]"

text \<open>The length of the encoding in \<open>encs\<close> that \<open>s\<close> begins with; 0 if there is none.\<close>

definition leading_width :: "string list \<Rightarrow> string \<Rightarrow> nat" where
  "leading_width encs s =
     (case find (\<lambda>e. take (length e) s = e) encs of None \<Rightarrow> 0 | Some e \<Rightarrow> length e)"

fun strip_leading :: "string list \<Rightarrow> string \<Rightarrow> string" where
  "strip_leading encs [] = []"
| "strip_leading encs (c # cs) =
     (if leading_width encs (c # cs) = 0 then c # cs
      else strip_leading encs (drop (leading_width encs (c # cs) - 1) cs))"

definition TrimLeftSpace :: "string \<Rightarrow> string" where
  "TrimLeftSpace s = strip_leading space_encodings s"

definition TrimRightSpace :: "string \<Rightarrow> string" where
  "TrimRightSpace s = rev (strip_leading (map rev space_encodings) (rev s))"

definition TrimSpace :: "string \<Rightarrow> string" where
  "TrimSpace s = TrimRightSpace (TrimLeftSpace s)"

text \<open>
  \<open>strings.ReplaceAll s old new\<close> replaces the non-overlapping occurrences of \<open>old\<close>,
  found from left to right. For an empty \<open>old\<close> the library puts \<open>new\<close> before every
  UTF-8 sequence of \<open>s\<close> and at the end; the sequences are those of
  \<open>utf8.DecodeRuneInString\<close>, for which a byte that does not begin a well-formed
  encoding is a sequence of its own. \<open>first_byte\<close> is the library's table: the length
  that a first byte announces and the range allowed for the second byte.
\<close>

definition in_range :: "char \<Rightarrow> nat \<Rightarrow> nat \<Rightarrow> bool" where
  "in_range c lo hi = (lo \<le> of_char c \<and> (of_char c :: nat) \<le> hi)"

definition first_byte :: "char \<Rightarrow> nat \<times> nat \<times> nat" where
  "first_byte s0 =
     (if in_range s0 0xC2 0xDF then (2, 0x80, 0xBF)
      else if in_range s0 0xE0 0xE0 then (3, 0xA0, 0xBF)
      else if in_range s0 0xED 0xED then (3, 0x80, 0x9F)
      else if in_range s0 0xE1 0xEF then (3, 0x80, 0xBF)
      else if in_range s0 0xF0 0xF0 then (4, 0x90, 0xBF)
      else if in_range s0 0xF1 0xF3 then (4, 0x80, 0xBF)
      else if in_range s0 0xF4 0xF4 then (4, 0x80, 0x8F)
      else (1, 0, 0))"

fun DecodeRune_width :: "string \<Rightarrow> nat" where
  "DecodeRune_width [] = 0"
| "DecodeRune_width (s0 # rest) =
     (case first_byte s0 of (sz, lo, hi) \<Rightarrow>
        if sz = 1 then 1
        else if length (s0 # rest) < sz then 1
        else if \<not> in_range (rest ! 0) lo hi then 1
        else if sz \<le> 2 then 2
        else if \<not> in_range (rest ! 1) 0x80 0xBF then 1
        else if sz \<le> 3 then 3
        else if \<not> in_range (rest ! 2) 0x80 0xBF then 1
        else 4)"

fun runes :: "string \<Rightarrow> string list" where
  "runes [] = []"
| "runes (c # cs) =
     take (DecodeRune_width (c # cs)) (c # cs) # runes (drop (DecodeRune_width (c # cs) - 1) cs)"

fun replace_from :: "string \<Rightarrow> string \<Rightarrow> string \<Rightarrow> string" where
  "replace_from old new [] = []"
| "replace_from old new (c # cs) =
     (if old \<noteq> [] \<and> take (length old) (c # cs) = old
      then new @ replace_from old new (drop (length old) (c # cs))
      else c # replace_from old new cs)"

definition ReplaceAll :: "string \<Rightarrow> string \<Rightarrow> string \<Rightarrow> string" where
  "ReplaceAll s old new =
     (if old = [] then new @ concat (map (\<lambda>r. r @ new) (runes s)) else replace_from old new s)"

text \<open>
  \<open>http.Header.Get\<close> returns the first value stored under the key, or the empty string.
\<close>

subsection \<open>Contexts and requests\<close>

text \<open>
  A \<open>context.Context\<close> is the chain of key/value pairs built by
  \<open>context.WithValue\<close>; \<open>ctx.Value(key)\<close> walks the chain from the newest pair and
  compares keys with \<open>==\<close> on interface values, so a key matches only when both its
  dynamic type and its value agree. The repository declares a type named
  \<open>TenantContextKey\<close> twice, once in package \<open>x\<close> and once in package \<open>config\<close>;
  these are two distinct Go types, hence two constructors. A value of type \<open>any\<close> is
  \<open>nil\<close>, a \<open>string\<close>, or a value of another dynamic type.
\<close>

datatype ctx_key =
    X_TenantContextKey string
  | Config_TenantContextKey string
  | OtherKey string

datatype any =
    NilVal
  | StringVal string
  | IntVal int
  | KeyVal ctx_key

type_synonym ctx = "(ctx_key \<times> any) list"

definition Background :: ctx where
  "Background = []"

definition WithValue :: "ctx \<Rightarrow> ctx_key \<Rightarrow> any \<Rightarrow> ctx" where
  "WithValue ctx key val = (key, val) # ctx"

definition Value :: "ctx \<Rightarrow> ctx_key \<Rightarrow> any" where
  "Value ctx key = (case map_of ctx key of None \<Rightarrow> NilVal | Some v \<Rightarrow> v)"

fun isString :: "any \<Rightarrow> bool" where
  "isString (StringVal s) = True"
| "isString v = False"

record Request =
  Header :: "string \<Rightarrow> string list"
  Context :: ctx

definition Header_Get :: "(string \<Rightarrow> string list) \<Rightarrow> string \<Rightarrow> string" where
  "Header_Get h key = (case h key of [] \<Rightarrow> [] | v # vs \<Rightarrow> v)"

subsection \<open>The middleware\<close>

definition TenantIDKey :: ctx_key where
  "TenantIDKey = X_TenantContextKey ''tenant_id''"

definition TenantIDHeader :: string where
  "TenantIDHeader = ''X-Tenant-Id''"

definition DefaultTenantID :: string where
  "DefaultTenantID = ''default''"

definition extractTenantID :: "Request \<Rightarrow> string" where
  "extractTenantID r =
     (let tenantID = TrimSpace (Header_Get (Header r) TenantIDHeader) in
      if tenantID = [] then DefaultTenantID
      else
        let tenantID = ReplaceAll tenantID ''..'' [];
            tenantID = ReplaceAll tenantID ''/'' [];
            tenantID = ReplaceAll tenantID [CHR 0x5C] []
        in if tenantID = [] then DefaultTenantID else tenantID)"

text \<open>
  \<open>TenantMiddleware\<close> returns a handler; the handler stores the extracted identifier in
  the request's context and passes the request on to \<open>next\<close>.
\<close>

definition TenantMiddleware :: "'rw \<Rightarrow> Request \<Rightarrow> ('rw \<Rightarrow> Request \<Rightarrow> 'a) \<Rightarrow> 'a" where
  "TenantMiddleware rw r next =
     (let tenantID = extractTenantID r;
          ctx = WithValue (Context r) TenantIDKey (StringVal tenantID)
      in next rw (r\<lparr>Context := ctx\<rparr>))"

definition GetTenantID :: "ctx \<Rightarrow> string" where
  "GetTenantID ctx =
     (case Value ctx TenantIDKey of StringVal tenantID \<Rightarrow> tenantID | _ \<Rightarrow> DefaultTenantID)"

definition SetTenantID :: "ctx \<Rightarrow> string \<Rightarrow> ctx" where
  "SetTenantID ctx tenantID = WithValue ctx TenantIDKey (StringVal tenantID)"

section \<open>The tenant manager (driver/config/tenant\_manager.go)\<close>

subsection \<open>Locks and outcomes\<close>

text \<open>
  \<open>sync.RWMutex\<close> is not reentrant. A call of \<open>Lock\<close> while the write lock is held or a
  reader is inside waits until the lock is released; \<open>RLock\<close> waits while the write
  lock is held. The model runs one call at a time, so a call that has to wait for a lock
  that nobody is going to release never returns: its outcome is \<open>Blocks\<close>, with the
  state at the moment the caller stops. \<open>Unlock\<close> of a mutex that is not locked is a
  fatal runtime error (\<open>Fatal\<close>).
\<close>

record RWMutex =
  writer :: bool
  readers :: nat

datatype ('a, 's) outcome =
    Returns 'a 's
  | Blocks 's
  | Fatal 's

fun then_do :: "('a, 's) outcome \<Rightarrow> ('a \<Rightarrow> 's \<Rightarrow> ('b, 's) outcome) \<Rightarrow> ('b, 's) outcome" where
  "then_do (Returns a s) f = f a s"
| "then_do (Blocks s) f = Blocks s"
| "then_do (Fatal s) f = Fatal s"

fun state_after :: "('a, 's) outcome \<Rightarrow> 's" where
  "state_after (Returns a s) = s"
| "state_after (Blocks s) = s"
| "state_after (Fatal s) = s"

fun returns :: "('a, 's) outcome \<Rightarrow> bool" where
  "returns (Returns a s) = True"
| "returns (Blocks s) = False"
| "returns (Fatal s) = False"

subsection \<open>The outside world\<close>

text \<open>
  The file system and the configuration library are parameters of every call:
  \<open>os_Stat\<close> is the result of \<open>os.Stat\<close> as far as the code inspects it,
  \<open>configx_New ctx path watch\<close> is the result of \<open>configx.New\<close> for the options of
  \<open>createTenantProvider\<close> (\<open>watch = False\<close>) or of \<open>setupTenantWatcher\<close>, which adds
  \<open>AttachWatcher\<close> (\<open>watch = True\<close>), and \<open>filepath_Join\<close> is \<open>filepath.Join\<close>.
  A provider is an opaque value of type \<open>'p\<close>. Log output is not modelled.
\<close>

datatype go_error = GoError string

datatype stat_result = StatOk | StatNotExist | StatOtherError

record 'p world =
  os_Stat :: "string \<Rightarrow> stat_result"
  configx_New :: "ctx \<Rightarrow> string \<Rightarrow> bool \<Rightarrow> go_error + 'p"
  filepath_Join :: "string list \<Rightarrow> string"

subsection \<open>State\<close>

text \<open>
  A stored cleanup function is the closure created in \<open>setupTenantWatcher\<close>; it
  captures the tenant identifier and the watching provider. Two fields of the state are
  bookkeeping that the Go struct does not have: \<open>cleanups_run\<close> collects the cleanup
  closures that have been called (the closure of the source only writes a debug line),
  and \<open>attached\<close> collects the tenant/path pairs for which a change callback has been
  handed to the watching library. The watching provider is created with
  \<open>context.Background()\<close>, and no function of the source closes it or cancels its
  context, so no function removes a pair from \<open>attached\<close>: a callback that has been
  attached can fire for as long as the process runs. \<open>baseConfig\<close> stands for
  \<open>tm.baseConfig.GetProvider\<close>.
\<close>

datatype 'p cleanup = Cleanup string 'p

record 'p TenantManager =
  mu :: RWMutex
  baseConfig :: "ctx \<Rightarrow> 'p"
  tenantConfigs :: "(string, 'p) fmap"
  configDirectory :: string
  watchers :: "(string, 'p cleanup) fmap"
  cleanups_run :: "'p cleanup fset"
  attached :: "(string \<times> string) fset"

definition Lock :: "'p TenantManager \<Rightarrow> (unit, 'p TenantManager) outcome" where
  "Lock s =
     (if writer (mu s) \<or> 0 < readers (mu s) then Blocks s
      else Returns () (s\<lparr>mu := (mu s)\<lparr>writer := True\<rparr>\<rparr>))"

definition Unlock :: "'p TenantManager \<Rightarrow> (unit, 'p TenantManager) outcome" where
  "Unlock s =
     (if writer (mu s) then Returns () (s\<lparr>mu := (mu s)\<lparr>writer := False\<rparr>\<rparr>)
      else Fatal s)"

definition RLock :: "'p TenantManager \<Rightarrow> (unit, 'p TenantManager) outcome" where
  "RLock s =
     (if writer (mu s) then Blocks s
      else Returns () (s\<lparr>mu := (mu s)\<lparr>readers := Suc (readers (mu s))\<rparr>\<rparr>))"

definition RUnlock :: "'p TenantManager \<Rightarrow> (unit, 'p TenantManager) outcome" where
  "RUnlock s =
     (if readers (mu s) = 0 then Fatal s
      else Returns () (s\<lparr>mu := (mu s)\<lparr>readers := readers (mu s) - 1\<rparr>\<rparr>))"

text \<open>\<open>defer tm.mu.Unlock()\<close>: the unlock runs when the body returns.\<close>

definition deferred_Unlock ::
  "('a, 'p TenantManager) outcome \<Rightarrow> ('a, 'p TenantManager) outcome" where
  "deferred_Unlock body =
     then_do body (\<lambda>r s. then_do (Unlock s) (\<lambda>_ s'. Returns r s'))"

definition deferred_RUnlock ::
  "('a, 'p TenantManager) outcome \<Rightarrow> ('a, 'p TenantManager) outcome" where
  "deferred_RUnlock body =
     then_do body (\<lambda>r s. then_do (RUnlock s) (\<lambda>_ s'. Returns r s'))"

definition NewTenantManager :: "(ctx \<Rightarrow> 'p) \<Rightarrow> string \<Rightarrow> 'p TenantManager" where
  "NewTenantManager base dir =
     \<lparr>mu = \<lparr>writer = False, readers = 0\<rparr>,
      baseConfig = base,
      tenantConfigs = fmempty,
      configDirectory = dir,
      watchers = fmempty,
      cleanups_run = {||},
      attached = {||}\<rparr>"

subsection \<open>Operations\<close>

definition getTenantConfigPath :: "'p world \<Rightarrow> 'p TenantManager \<Rightarrow> string \<Rightarrow> string" where
  "getTenantConfigPath w s tenantID =
     filepath_Join w [configDirectory s, tenantID, ''kratos.yaml'']"

definition createTenantProvider :: "'p world \<Rightarrow> ctx \<Rightarrow> string \<Rightarrow> go_error + 'p" where
  "createTenantProvider w ctx configPath = configx_New w ctx configPath False"

definition run_cleanup :: "'p cleanup \<Rightarrow> 'p TenantManager \<Rightarrow> 'p TenantManager" where
  "run_cleanup c s = s\<lparr>cleanups_run := finsert c (cleanups_run s)\<rparr>"

definition setupTenantWatcher_body ::
  "'p world \<Rightarrow> string \<Rightarrow> string \<Rightarrow> 'p TenantManager \<Rightarrow> (unit, 'p TenantManager) outcome" where
  "setupTenantWatcher_body w tenantID configPath s =
     (let s1 = (case fmlookup (watchers s) tenantID of
                  Some cleanup \<Rightarrow> run_cleanup cleanup s
                | None \<Rightarrow> s)
      in case configx_New w Background configPath True of
           Inl err \<Rightarrow> Returns () s1
         | Inr watcherProvider \<Rightarrow>
             Returns ()
               (s1\<lparr>watchers := fmupd tenantID (Cleanup tenantID watcherProvider) (watchers s1),
                   attached := finsert (tenantID, configPath) (attached s1)\<rparr>))"

definition setupTenantWatcher ::
  "'p world \<Rightarrow> string \<Rightarrow> string \<Rightarrow> 'p TenantManager \<Rightarrow> (unit, 'p TenantManager) outcome" where
  "setupTenantWatcher w tenantID configPath s =
     then_do (Lock s) (\<lambda>_ s1.
       deferred_Unlock (setupTenantWatcher_body w tenantID configPath s1))"

definition loadTenantConfig_body ::
  "'p world \<Rightarrow> ctx \<Rightarrow> string \<Rightarrow> 'p TenantManager \<Rightarrow> ('p, 'p TenantManager) outcome" where
  "loadTenantConfig_body w ctx tenantID s =
     (case fmlookup (tenantConfigs s) tenantID of
        Some provider \<Rightarrow> Returns provider s
      | None \<Rightarrow>
          let tenantConfigPath = getTenantConfigPath w s tenantID in
          if os_Stat w tenantConfigPath = StatNotExist then Returns (baseConfig s ctx) s
          else
            case createTenantProvider w ctx tenantConfigPath of
              Inl err \<Rightarrow> Returns (baseConfig s ctx) s
            | Inr provider \<Rightarrow>
                then_do
                  (setupTenantWatcher w tenantID tenantConfigPath
                     (s\<lparr>tenantConfigs := fmupd tenantID provider (tenantConfigs s)\<rparr>))
                  (\<lambda>_ s'. Returns provider s'))"

definition loadTenantConfig ::
  "'p world \<Rightarrow> ctx \<Rightarrow> string \<Rightarrow> 'p TenantManager \<Rightarrow> ('p, 'p TenantManager) outcome" where
  "loadTenantConfig w ctx tenantID s =
     then_do (Lock s) (\<lambda>_ s1.
       deferred_Unlock (loadTenantConfig_body w ctx tenantID s1))"

definition GetTenantConfig ::
  "'p world \<Rightarrow> ctx \<Rightarrow> string \<Rightarrow> 'p TenantManager \<Rightarrow> ('p, 'p TenantManager) outcome" where
  "GetTenantConfig w ctx tenantID s =
     (if tenantID = ''default'' then Returns (baseConfig s ctx) s
      else
        then_do (RLock s) (\<lambda>_ s1.
          case fmlookup (tenantConfigs s1) tenantID of
            Some provider \<Rightarrow> then_do (RUnlock s1) (\<lambda>_ s2. Returns provider s2)
          | None \<Rightarrow> then_do (RUnlock s1) (\<lambda>_ s2. loadTenantConfig w ctx tenantID s2)))"

definition InvalidateTenantConfig ::
  "string \<Rightarrow> 'p TenantManager \<Rightarrow> (unit, 'p TenantManager) outcome" where
  "InvalidateTenantConfig tenantID s =
     then_do (Lock s) (\<lambda>_ s1.
       deferred_Unlock
         (let s2 = s1\<lparr>tenantConfigs := fmdrop tenantID (tenantConfigs s1)\<rparr> in
          case fmlookup (watchers s2) tenantID of
            Some cleanup \<Rightarrow>
              Returns () ((run_cleanup cleanup s2)\<lparr>watchers := fmdrop tenantID (watchers s2)\<rparr>)
          | None \<Rightarrow> Returns () s2))"

definition invalidateTenantConfigUnsafe :: "string \<Rightarrow> 'p TenantManager \<Rightarrow> 'p TenantManager" where
  "invalidateTenantConfigUnsafe tenantID s =
     s\<lparr>tenantConfigs := fmdrop tenantID (tenantConfigs s)\<rparr>"

definition preloadTenantConfig ::
  "'p world \<Rightarrow> ctx \<Rightarrow> string \<Rightarrow> string \<Rightarrow> 'p TenantManager
   \<Rightarrow> (go_error + 'p, 'p TenantManager) outcome" where
  "preloadTenantConfig w ctx tenantID configPath s =
     (case createTenantProvider w ctx configPath of
        Inl err \<Rightarrow> Returns (Inl err) s
      | Inr provider \<Rightarrow>
          then_do (Lock s) (\<lambda>_ s1.
            then_do (Unlock (s1\<lparr>tenantConfigs := fmupd tenantID provider (tenantConfigs s1)\<rparr>))
              (\<lambda>_ s2. Returns (Inr provider) s2)))"

text \<open>
  The callback handed to \<open>configx.AttachWatcher\<close> in \<open>setupTenantWatcher\<close>, for the
  tenant and path the closure captured. Of its two arguments the event is only logged;
  \<open>err\<close> is \<open>None\<close> for a file change. On a watcher error it only logs. Otherwise
  it invalidates the entry without taking the lock and starts a goroutine that preloads;
  the started goroutine is returned as a task, to be run later.
\<close>

datatype task = Preload string string

definition watcher_callback ::
  "string \<Rightarrow> string \<Rightarrow> go_error option \<Rightarrow> 'p TenantManager \<Rightarrow> 'p TenantManager \<times> task list" where
  "watcher_callback tenantID configPath err s =
     (case err of
        Some e \<Rightarrow> (s, [])
      | None \<Rightarrow> (invalidateTenantConfigUnsafe tenantID s, [Preload tenantID configPath]))"

fun run_task :: "'p world \<Rightarrow> task \<Rightarrow> 'p TenantManager \<Rightarrow> (unit, 'p TenantManager) outcome" where
  "run_task w (Preload tenantID configPath) s =
     then_do (preloadTenantConfig w Background tenantID configPath s) (\<lambda>_ s'. Returns () s')"

record stats =
  loaded_tenants_count :: nat
  active_watchers_count :: nat
  loaded_tenant_ids :: "string fset"
  config_directory :: string

definition getLoadedTenantsUnsafe :: "'p TenantManager \<Rightarrow> string fset" where
  "getLoadedTenantsUnsafe s = fmdom (tenantConfigs s)"

definition GetTenantConfigStats :: "'p TenantManager \<Rightarrow> (stats, 'p TenantManager) outcome" where
  "GetTenantConfigStats s =
     then_do (RLock s) (\<lambda>_ s1.
       deferred_RUnlock
         (Returns
            \<lparr>loaded_tenants_count = fcard (fmdom (tenantConfigs s1)),
             active_watchers_count = fcard (fmdom (watchers s1)),
             loaded_tenant_ids = getLoadedTenantsUnsafe s1,
             config_directory = configDirectory s1\<rparr>
            s1))"

text \<open>
  \<open>Shutdown\<close> calls every stored cleanup function (the order of a Go map iteration is
  unspecified, and the calls commute) and replaces the watcher map by an empty one.
\<close>

definition Shutdown :: "'p TenantManager \<Rightarrow> (unit, 'p TenantManager) outcome" where
  "Shutdown s =
     then_do (Lock s) (\<lambda>_ s1.
       deferred_Unlock
         (Returns ()
            (s1\<lparr>cleanups_run := cleanups_run s1 |\<union>| fmran (watchers s1),
                watchers := fmempty\<rparr>)))"

subsection \<open>The tenant-aware wrapper\<close>

definition GetProvider_tenantID :: "ctx \<Rightarrow> string" where
  "GetProvider_tenantID ctx =
     (let tenantID = ''default'';
          val = Value ctx (Config_TenantContextKey ''tenant_id'')
      in if val \<noteq> NilVal
         then (case val of StringVal tid \<Rightarrow> tid | _ \<Rightarrow> tenantID)
         else tenantID)"

definition GetProvider ::
  "'p world \<Rightarrow> 'p TenantManager \<Rightarrow> ctx \<Rightarrow> ('p, 'p TenantManager) outcome" where
  "GetProvider w tenantManager ctx =
     GetTenantConfig w ctx (GetProvider_tenantID ctx) tenantManager"

subsection \<open>Reachable states\<close>

text \<open>
  The states a manager can be in: it is created by \<open>NewTenantManager\<close>; then callers
  use its exported methods, with any arguments and against any file system, and the
  watching library fires callbacks that were attached and runs the preloads they
  started. A call that never returns leaves the manager in the state it stopped in.
  Between the read check of \<open>GetTenantConfig\<close> and its call of \<open>loadTenantConfig\<close>
  other callers may run, so the second half is a step of its own (rule \<open>load\<close>); it
  is only ever entered for a tenant other than \<open>default\<close>.
\<close>

inductive reachable :: "'p TenantManager \<Rightarrow> bool" where
  init: "reachable (NewTenantManager base dir)"
| resolve: "reachable s \<Longrightarrow> reachable (state_after (GetTenantConfig w ctx tenantID s))"
| load:
    "reachable s \<Longrightarrow> tenantID \<noteq> ''default''
     \<Longrightarrow> reachable (state_after (loadTenantConfig w ctx tenantID s))"
| invalidate: "reachable s \<Longrightarrow> reachable (state_after (InvalidateTenantConfig tenantID s))"
| statistics: "reachable s \<Longrightarrow> reachable (state_after (GetTenantConfigStats s))"
| shutdown: "reachable s \<Longrightarrow> reachable (state_after (Shutdown s))"
| file_event:
    "reachable s \<Longrightarrow> (tenantID, configPath) |\<in>| attached s
     \<Longrightarrow> reachable (fst (watcher_callback tenantID configPath err s))"
| preload:
    "reachable s \<Longrightarrow> (tenantID, configPath) |\<in>| attached s
     \<Longrightarrow> reachable (state_after (run_task w (Preload tenantID configPath) s))"

subsection \<open>Auxiliary notions and an example\<close>

text \<open>A mutex that nobody holds.\<close>

definition unlocked :: "RWMutex \<Rightarrow> bool" where
  "unlocked m = (\<not> writer m \<and> readers m = 0)"

text \<open>
  \<open>filepath.Join\<close> as it behaves on a Unix system, for the examples: the elements from
  the first non-empty one on are joined with a slash and the result is cleaned
  (\<open>filepath.Clean\<close>: empty elements and \<open>.\<close> are dropped, \<open>..\<close> removes the element
  before it, and is kept at the front of a path that is not rooted).
\<close>

fun split_elements :: "string \<Rightarrow> string \<Rightarrow> string list" where
  "split_elements cur [] = (if cur = [] then [] else [cur])"
| "split_elements cur (c # cs) =
     (if c = CHR ''/'' then (if cur = [] then split_elements [] cs else cur # split_elements [] cs)
      else split_elements (cur @ [c]) cs)"

fun clean_elements :: "bool \<Rightarrow> string list \<Rightarrow> string list \<Rightarrow> string list" where
  "clean_elements rooted out [] = rev out"
| "clean_elements rooted out (e # es) =
     (if e = ''.'' then clean_elements rooted out es
      else if e = ''..'' then
        (case out of
           t # below \<Rightarrow>
             if t \<noteq> ''..'' then clean_elements rooted below es
             else clean_elements rooted (''..'' # out) es
         | [] \<Rightarrow>
             if rooted then clean_elements rooted [] es
             else clean_elements rooted [''..''] es)
      else clean_elements rooted (e # out) es)"

fun join_with_slash :: "string list \<Rightarrow> string" where
  "join_with_slash [] = []"
| "join_with_slash [e] = e"
| "join_with_slash (e # es) = e @ ''/'' @ join_with_slash es"

definition unix_Clean :: "string \<Rightarrow> string" where
  "unix_Clean path =
     (let rooted = (take 1 path = ''/'');
          body = join_with_slash (clean_elements rooted [] (split_elements [] path))
      in if rooted then ''/'' @ body else if body = [] then ''.'' else body)"

definition unix_Join :: "string list \<Rightarrow> string" where
  "unix_Join elem =
     (case dropWhile (\<lambda>e. e = []) elem of
        [] \<Rightarrow> []
      | es \<Rightarrow> unix_Clean (join_with_slash es))"

text \<open>
  An example world: \<open>os.Stat\<close> finds the file of the tenant \<open>tenant1\<close> under the
  configuration directory \<open>configs\<close>, \<open>configx.New\<close> loads it, and no other path
  exists. That the library loads the file is an assumption of the example (it is the
  case the claims about a successful load speak of), not a statement about a particular
  directory layout. Providers are numbered: 0 is the base provider, 1 the provider
  loaded for \<open>tenant1\<close>, 2 its watching provider.
\<close>

definition example_world :: "nat world" where
  "example_world =
     \<lparr>os_Stat = (\<lambda>p. if p = ''configs/tenant1/kratos.yaml'' then StatOk else StatNotExist),
      configx_New = (\<lambda>ctx p watch.
         if p = ''configs/tenant1/kratos.yaml'' then Inr (if watch then 2 else 1)
         else Inl (GoError ''no such file'')),
      filepath_Join = unix_Join\<rparr>"

definition example_manager :: "nat TenantManager" where
  "example_manager = NewTenantManager (\<lambda>ctx. 0) ''configs''"

definition example_request :: "string \<Rightarrow> Request" where
  "example_request h =
     \<lparr>Header = (\<lambda>k. if k = ''X-Tenant-Id'' then [h] else []), Context = Background\<rparr>"

text \<open>
  The manager as \<open>loadTenantConfig\<close> is written to leave it for \<open>tenant1\<close>: the
  provider cached, the watcher registered, its callback attached, the lock free. It is
  the state \<open>setupTenantWatcher\<close> produces when it is run with the entry stored and
  without the lock held (lemma \<open>example_watched_by_setup\<close>).
\<close>

definition example_watched :: "nat TenantManager" where
  "example_watched =
     example_manager
       \<lparr>tenantConfigs := fmupd ''tenant1'' 1 fmempty,
        watchers := fmupd ''tenant1'' (Cleanup ''tenant1'' 2) fmempty,
        attached := {|(''tenant1'', ''configs/tenant1/kratos.yaml'')|}\<rparr>"


text \<open>
  The invariant behind the treatment of the default tenant: it has no cache entry, and
  no change callback was ever attached for it.
\<close>

definition default_uncached :: "'p TenantManager \<Rightarrow> bool" where
  "default_uncached s =
     (''default'' |\<notin>| fmdom (tenantConfigs s) \<and> ''default'' |\<notin>| fst |`| attached s)"

section \<open>Properties of the extractor\<close>

lemma set_replace_from_subset: "set (replace_from old [] s) \<subseteq> set s"
proof (induction old "[] :: string" s rule: replace_from.induct)
  case (1 old)
  then show ?case by simp
next
  case (2 old c cs)
  show ?case
  proof (cases "old \<noteq> [] \<and> take (length old) (c # cs) = old")
    case True
    have "set (replace_from old [] (drop (length old) (c # cs)))
          \<subseteq> set (drop (length old) (c # cs))"
      using 2(1) True by simp
    also have "\<dots> \<subseteq> set (c # cs)"
      by (rule set_drop_subset)
    finally show ?thesis using True by simp
  next
    case False
    then show ?thesis using 2(2) by auto
  qed
qed

lemma replace_from_single_absent: "c \<notin> set (replace_from [c] [] s)"
  by (induction s) auto

lemma ReplaceAll_single_absent: "c \<notin> set (ReplaceAll s [c] [])"
  by (simp add: ReplaceAll_def replace_from_single_absent)

lemma set_ReplaceAll_subset: "old \<noteq> [] \<Longrightarrow> set (ReplaceAll s old []) \<subseteq> set s"
  by (simp add: ReplaceAll_def set_replace_from_subset)

text \<open>
  The part of the sanitisation that holds for every request: the result is never empty
  and contains neither separator character.
\<close>

lemma extractTenantID_nonempty: "extractTenantID r \<noteq> []"
  by (simp add: extractTenantID_def Let_def DefaultTenantID_def)

lemma extractTenantID_no_separator:
  "CHR ''/'' \<notin> set (extractTenantID r) \<and> CHR 0x5C \<notin> set (extractTenantID r)"
proof -
  have d: "CHR ''/'' \<notin> set DefaultTenantID \<and> CHR 0x5C \<notin> set DefaultTenantID"
    by (simp add: DefaultTenantID_def)
  have a: "CHR ''/'' \<notin> set (ReplaceAll (ReplaceAll t ''/'' []) [CHR 0x5C] [])" for t
    using set_ReplaceAll_subset [of "[CHR 0x5C]" "ReplaceAll t ''/'' []"]
      ReplaceAll_single_absent [of "CHR ''/''" t] by auto
  have b: "CHR 0x5C \<notin> set (ReplaceAll u [CHR 0x5C] [])" for u
    by (rule ReplaceAll_single_absent)
  show ?thesis
    using d a b by (simp add: extractTenantID_def Let_def)
qed

text \<open>
  Claim C1: for every header value that contains \<open>..\<close> or a path separator, the
  extracted tenant identifier contains neither \<open>..\<close> nor a separator.

  The code removes \<open>..\<close> first and the separators afterwards, so two dots that were
  kept apart by a separator meet after the second pass. For the header value \<open>./.\<close>
  the extractor returns \<open>..\<close>, the parent directory.
\<close>

theorem extractTenantID_returns_dotdot:
  "extractTenantID (example_request ''./.'') = ''..''"
  by (simp add: example_request_def extractTenantID_def Header_Get_def TenantIDHeader_def
      TrimSpace_def TrimLeftSpace_def TrimRightSpace_def leading_width_def
      space_encodings_def ReplaceAll_def Let_def)

text \<open>
  With that identifier the configuration path of the example leaves the tenant
  directories: it is the file \<open>kratos.yaml\<close> next to the configuration directory.
\<close>

lemma path_of_dotdot_leaves_directory:
  "getTenantConfigPath example_world example_manager ''..'' = ''kratos.yaml''"
  by (simp add: getTenantConfigPath_def example_world_def example_manager_def NewTenantManager_def
      unix_Join_def unix_Clean_def)

section \<open>Properties of the context plumbing\<close>

text \<open>
  Claim C2: the tenant identifier that the middleware stores in the request context is
  the identifier that \<open>TenantAwareConfig.GetProvider\<close> reads back.

  The middleware stores under a key of type \<open>x.TenantContextKey\<close>, the wrapper looks
  up a key of type \<open>config.TenantContextKey\<close>. For a request with the header value
  \<open>tenant1\<close>, \<open>GetTenantID\<close> of package \<open>x\<close> reads \<open>tenant1\<close> from the context the
  middleware built, and the wrapper resolves the same context to \<open>default\<close>.
\<close>

theorem middleware_value_not_read_by_GetProvider:
  "TenantMiddleware () (example_request ''tenant1'')
     (\<lambda>rw r. (GetTenantID (Context r), GetProvider_tenantID (Context r)))
   = (''tenant1'', ''default'')"
  by (simp add: example_request_def TenantMiddleware_def extractTenantID_def Header_Get_def
      TenantIDHeader_def TrimSpace_def TrimLeftSpace_def TrimRightSpace_def leading_width_def
      space_encodings_def ReplaceAll_def Let_def GetTenantID_def
      GetProvider_tenantID_def Value_def WithValue_def Background_def TenantIDKey_def)

text \<open>
  Claim C10: when the tenant key is absent from the context, or holds a value whose
  dynamic type is not \<open>string\<close>, both \<open>GetTenantID\<close> and the tenant resolution of
  \<open>GetProvider\<close> yield \<open>default\<close>; neither fails. Each function is stated for the key
  it looks up.
\<close>

theorem non_string_value_is_default:
  "(map_of ctx TenantIDKey = None \<or> \<not> isString (Value ctx TenantIDKey)
      \<longrightarrow> GetTenantID ctx = ''default'')
   \<and> (map_of ctx (Config_TenantContextKey ''tenant_id'') = None
        \<or> \<not> isString (Value ctx (Config_TenantContextKey ''tenant_id''))
      \<longrightarrow> GetProvider_tenantID ctx = ''default'')"
proof -
  have v: "map_of ctx k = None \<Longrightarrow> Value ctx k = NilVal" for k
    by (simp add: Value_def)
  have g: "\<not> isString (Value ctx TenantIDKey) \<Longrightarrow> GetTenantID ctx = ''default''"
    by (cases "Value ctx TenantIDKey") (simp_all add: GetTenantID_def DefaultTenantID_def)
  have p: "\<not> isString (Value ctx (Config_TenantContextKey ''tenant_id''))
           \<Longrightarrow> GetProvider_tenantID ctx = ''default''"
    by (cases "Value ctx (Config_TenantContextKey ''tenant_id'')")
       (simp_all add: GetProvider_tenantID_def Let_def)
  show ?thesis
    using v g p by (metis isString.simps(2))
qed

theorem non_string_value_is_default_witness:
  "(\<not> isString (Value [(TenantIDKey, IntVal 7)] TenantIDKey)
    \<and> GetTenantID [(TenantIDKey, IntVal 7)] = ''default'')
   \<and> (map_of [(TenantIDKey, IntVal 7)] (Config_TenantContextKey ''tenant_id'') = None
    \<and> GetProvider_tenantID [(TenantIDKey, IntVal 7)] = ''default'')"
  using non_string_value_is_default [of "[(TenantIDKey, IntVal 7)]"]
  by (simp add: Value_def TenantIDKey_def)

section \<open>Properties of the tenant manager\<close>

subsection \<open>Locks\<close>

lemma unlocked_no_writer: "unlocked (mu s) \<Longrightarrow> \<not> writer (mu s)"
  by (simp add: unlocked_def)

lemma example_unlocked: "unlocked (mu example_manager)"
  by (simp add: example_manager_def NewTenantManager_def unlocked_def)

subsection \<open>Resolving a tenant\<close>

lemma GetTenantConfig_miss:
  assumes "tenantID \<noteq> ''default''" "unlocked (mu s)" "fmlookup (tenantConfigs s) tenantID = None"
  shows "GetTenantConfig w ctx tenantID s = loadTenantConfig w ctx tenantID s"
  using assms unlocked_no_writer [of s] by (simp add: GetTenantConfig_def RLock_def RUnlock_def)

lemma GetTenantConfig_hit:
  assumes "tenantID \<noteq> ''default''" "unlocked (mu s)" "fmlookup (tenantConfigs s) tenantID = Some p"
  shows "GetTenantConfig w ctx tenantID s = Returns p s"
  using assms unlocked_no_writer [of s] by (simp add: GetTenantConfig_def RLock_def RUnlock_def)


text \<open>
  After a successful load, \<open>loadTenantConfig\<close> still holds the write lock when it calls
  \<open>setupTenantWatcher\<close>, which asks for the same lock: the caller stops there, with the
  new entry stored and the lock held.
\<close>

lemma loadTenantConfig_success_blocks:
  assumes "unlocked (mu s)" "fmlookup (tenantConfigs s) tenantID = None"
    and "os_Stat w (getTenantConfigPath w s tenantID) \<noteq> StatNotExist"
    and "createTenantProvider w ctx (getTenantConfigPath w s tenantID) = Inr p"
  shows "loadTenantConfig w ctx tenantID s =
         Blocks (s\<lparr>mu := (mu s)\<lparr>writer := True\<rparr>,
                   tenantConfigs := fmupd tenantID p (tenantConfigs s)\<rparr>)"
  using assms
  by (simp add: loadTenantConfig_def loadTenantConfig_body_def Lock_def
      deferred_Unlock_def unlocked_def getTenantConfigPath_def Let_def setupTenantWatcher_def)

lemma example_path:
  "getTenantConfigPath example_world example_manager ''tenant1'' = ''configs/tenant1/kratos.yaml''"
  by (simp add: getTenantConfigPath_def example_world_def example_manager_def NewTenantManager_def
      unix_Join_def unix_Clean_def)

lemma example_load_blocks:
  "loadTenantConfig example_world Background ''tenant1'' example_manager =
     Blocks (example_manager
       \<lparr>mu := \<lparr>writer = True, readers = 0\<rparr>,
        tenantConfigs := fmupd ''tenant1'' 1 fmempty\<rparr>)"
proof -
  have miss: "fmlookup (tenantConfigs example_manager) ''tenant1'' = None"
    by (simp add: example_manager_def NewTenantManager_def)
  have st: "os_Stat example_world ''configs/tenant1/kratos.yaml'' \<noteq> StatNotExist"
    by (simp add: example_world_def)
  have ld: "createTenantProvider example_world Background ''configs/tenant1/kratos.yaml'' = Inr 1"
    by (simp add: createTenantProvider_def example_world_def)
  have "loadTenantConfig example_world Background ''tenant1'' example_manager =
        Blocks (example_manager
          \<lparr>mu := (mu example_manager)\<lparr>writer := True\<rparr>,
           tenantConfigs := fmupd ''tenant1'' 1 (tenantConfigs example_manager)\<rparr>)"
    using example_unlocked miss st ld
    by (simp add: loadTenantConfig_success_blocks example_path)
  also have "\<dots> = Blocks (example_manager
       \<lparr>mu := \<lparr>writer = True, readers = 0\<rparr>,
        tenantConfigs := fmupd ''tenant1'' 1 fmempty\<rparr>)"
    by (simp add: example_manager_def NewTenantManager_def)
  finally show ?thesis .
qed

lemma example_miss:
  "GetTenantConfig example_world Background ''tenant1'' example_manager =
   loadTenantConfig example_world Background ''tenant1'' example_manager"
  using example_unlocked
  by (simp add: GetTenantConfig_miss example_manager_def NewTenantManager_def)

text \<open>
  Claim C3: for a tenant other than \<open>default\<close> whose file exists and loads,
  \<open>GetTenantConfig\<close> returns the loaded provider, stores it in the cache and starts a
  watcher; in particular the call returns.

  On the example world the first request for \<open>tenant1\<close> does not return: the
  provider is stored, no watcher is registered, and the caller stops inside
  \<open>setupTenantWatcher\<close> with the write lock held.
\<close>

theorem successful_load_never_returns:
  "GetTenantConfig example_world Background ''tenant1'' example_manager =
     Blocks (example_manager
       \<lparr>mu := \<lparr>writer = True, readers = 0\<rparr>,
        tenantConfigs := fmupd ''tenant1'' 1 fmempty\<rparr>)"
  by (simp add: example_miss example_load_blocks)

text \<open>
  Claim C9: of several callers that ask for a tenant nobody has asked for before, exactly
  one loads the file and all of them receive the same provider.

  Take two callers on the example world. Whatever the second caller does after
  the first has stopped, it stops too: a caller that starts \<open>GetTenantConfig\<close> waits for
  the read lock, a caller that had already missed in the read check waits for the write
  lock in \<open>loadTenantConfig\<close>. The file is loaded once, and nobody receives a provider.
\<close>

theorem concurrent_first_callers_never_return:
  "(let first = GetTenantConfig example_world Background ''tenant1'' example_manager;
        s1 = state_after first
    in \<not> returns first
       \<and> fmlookup (tenantConfigs s1) ''tenant1'' = Some 1
       \<and> GetTenantConfig example_world Background ''tenant1'' s1 = Blocks s1
       \<and> loadTenantConfig example_world Background ''tenant1'' s1 = Blocks s1)"
proof -
  let ?s1 = "example_manager
       \<lparr>mu := \<lparr>writer = True, readers = 0\<rparr>,
        tenantConfigs := fmupd ''tenant1'' 1 fmempty\<rparr>"
  have f: "GetTenantConfig example_world Background ''tenant1'' example_manager = Blocks ?s1"
    by (simp add: example_miss example_load_blocks)
  have c: "fmlookup (tenantConfigs ?s1) ''tenant1'' = Some 1"
    by simp
  have g: "GetTenantConfig example_world Background ''tenant1'' ?s1 = Blocks ?s1"
    by (simp add: GetTenantConfig_def RLock_def)
  have l: "loadTenantConfig example_world Background ''tenant1'' ?s1 = Blocks ?s1"
    by (simp add: loadTenantConfig_def Lock_def)
  show ?thesis
    unfolding Let_def f state_after.simps returns.simps
    using c g l by blast
qed




subsection \<open>What the reachable states look like\<close>

text \<open>
  A consequence of the blocked load: \<open>setupTenantWatcher\<close> is only called from
  \<open>loadTenantConfig\<close>, with the write lock held, so it never gets as far as registering
  a watcher. In every reachable state the watcher map is empty and no change callback
  is attached.
\<close>

lemma loadTenantConfig_no_watchers:
  assumes "watchers s = fmempty \<and> attached s = {||}"
  shows "watchers (state_after (loadTenantConfig w ctx t s)) = fmempty
         \<and> attached (state_after (loadTenantConfig w ctx t s)) = {||}"
proof (cases "writer (mu s) \<or> 0 < readers (mu s)")
  case True
  then show ?thesis using assms by (simp add: loadTenantConfig_def Lock_def)
next
  case False
  let ?s1 = "s\<lparr>mu := (mu s)\<lparr>writer := True\<rparr>\<rparr>"
  have l: "loadTenantConfig w ctx t s = deferred_Unlock (loadTenantConfig_body w ctx t ?s1)"
    using False by (simp add: loadTenantConfig_def Lock_def)
  have blocked: "setupTenantWatcher w t path' s' = Blocks s'" if "writer (mu s')" for path' s'
    using that by (simp add: setupTenantWatcher_def Lock_def)
  show ?thesis
    using assms False
    by (auto simp add: l loadTenantConfig_body_def deferred_Unlock_def Unlock_def Let_def
        blocked split: option.splits sum.splits)
qed

lemma reachable_no_watchers:
  "reachable s \<Longrightarrow> watchers s = fmempty \<and> attached s = {||}"
proof (induction rule: reachable.induct)
  case (init base dir)
  show ?case by (simp add: NewTenantManager_def)
next
  case (resolve s w ctx tenantID)
  then show ?case
    using loadTenantConfig_no_watchers [of s w ctx tenantID]
    by (auto simp add: GetTenantConfig_def RLock_def RUnlock_def split: option.splits)
next
  case (load s tenantID w ctx)
  then show ?case by (simp add: loadTenantConfig_no_watchers)
next
  case (invalidate s tenantID)
  then show ?case
    by (auto simp add: InvalidateTenantConfig_def Lock_def Unlock_def deferred_Unlock_def
        Let_def)
next
  case (statistics s)
  then show ?case
    by (auto simp add: GetTenantConfigStats_def RLock_def RUnlock_def deferred_RUnlock_def)
next
  case (shutdown s)
  then show ?case
    by (auto simp add: Shutdown_def Lock_def Unlock_def deferred_Unlock_def)
next
  case (file_event s tenantID configPath err)
  then show ?case by simp
next
  case (preload s tenantID configPath w)
  then show ?case by simp
qed

text \<open>
  The cache is filled in one place only, in \<open>loadTenantConfig\<close> just before the call
  that blocks. So a reachable state whose lock is free has an empty cache, and in a
  reachable state with a cached tenant the write lock is held for good: every call that
  needs the lock stops there.
\<close>

lemma loadTenantConfig_free_is_empty:
  assumes "\<not> writer (mu s) \<longrightarrow> tenantConfigs s = fmempty"
  shows "\<not> writer (mu (state_after (loadTenantConfig w ctx t s)))
         \<longrightarrow> tenantConfigs (state_after (loadTenantConfig w ctx t s)) = fmempty"
proof (cases "writer (mu s) \<or> 0 < readers (mu s)")
  case True
  then have "loadTenantConfig w ctx t s = Blocks s"
    by (auto simp add: loadTenantConfig_def Lock_def)
  then show ?thesis using assms by simp
next
  case False
  let ?s1 = "s\<lparr>mu := (mu s)\<lparr>writer := True\<rparr>\<rparr>"
  have l: "loadTenantConfig w ctx t s = deferred_Unlock (loadTenantConfig_body w ctx t ?s1)"
    using False by (simp add: loadTenantConfig_def Lock_def)
  have blocked: "setupTenantWatcher w t path' s' = Blocks s'" if "writer (mu s')" for path' s'
    using that by (simp add: setupTenantWatcher_def Lock_def)
  show ?thesis
    using assms False
    by (auto simp add: l loadTenantConfig_body_def deferred_Unlock_def Unlock_def Let_def
        blocked split: option.splits sum.splits)
qed

lemma reachable_free_is_empty:
  "reachable s \<Longrightarrow> \<not> writer (mu s) \<longrightarrow> tenantConfigs s = fmempty"
proof (induction rule: reachable.induct)
  case (init base dir)
  show ?case by (simp add: NewTenantManager_def)
next
  case (resolve s w ctx tenantID)
  then show ?case
    using loadTenantConfig_free_is_empty [of s w ctx tenantID]
    by (auto simp add: GetTenantConfig_def RLock_def RUnlock_def split: option.splits)
next
  case (load s tenantID w ctx)
  then show ?case by (simp add: loadTenantConfig_free_is_empty)
next
  case (invalidate s tenantID)
  then show ?case
    by (auto simp add: InvalidateTenantConfig_def Lock_def Unlock_def deferred_Unlock_def
        run_cleanup_def Let_def split: option.splits)
next
  case (statistics s)
  then show ?case
    by (auto simp add: GetTenantConfigStats_def RLock_def RUnlock_def deferred_RUnlock_def)
next
  case (shutdown s)
  then show ?case
    by (auto simp add: Shutdown_def Lock_def Unlock_def deferred_Unlock_def)
next
  case (file_event s tenantID configPath err)
  then show ?case using reachable_no_watchers [of s] by simp
next
  case (preload s tenantID configPath w)
  then show ?case using reachable_no_watchers [of s] by simp
qed

lemma reachable_cached_is_locked:
  assumes "reachable s" "fmlookup (tenantConfigs s) tenantID = Some p"
  shows "writer (mu s)"
proof (rule ccontr)
  assume "\<not> writer (mu s)"
  then have "tenantConfigs s = fmempty"
    using reachable_free_is_empty [OF assms(1)] by simp
  then show False using assms(2) by simp
qed

lemma locked_calls_block:
  assumes "writer (mu s)"
  shows "InvalidateTenantConfig tenantID s = Blocks s"
    and "Shutdown s = Blocks s"
    and "GetTenantConfigStats s = Blocks s"
    and "tenantID \<noteq> ''default'' \<Longrightarrow> GetTenantConfig w ctx tenantID s = Blocks s"
  using assms
  by (simp_all add: InvalidateTenantConfig_def Shutdown_def GetTenantConfigStats_def
      GetTenantConfig_def Lock_def RLock_def)

lemma example_blocked_state:
  "state_after (GetTenantConfig example_world Background ''tenant1'' example_manager) =
   example_manager
     \<lparr>mu := \<lparr>writer = True, readers = 0\<rparr>,
      tenantConfigs := fmupd ''tenant1'' 1 fmempty\<rparr>"
  by (simp add: example_miss example_load_blocks)

lemma example_watched_unlocked: "unlocked (mu example_watched)"
  by (simp add: example_watched_def example_manager_def NewTenantManager_def unlocked_def)

lemma example_watched_by_setup:
  "setupTenantWatcher example_world ''tenant1'' ''configs/tenant1/kratos.yaml''
     (example_manager\<lparr>tenantConfigs := fmupd ''tenant1'' 1 fmempty\<rparr>)
   = Returns () example_watched"
  by (simp add: setupTenantWatcher_def setupTenantWatcher_body_def Lock_def Unlock_def
      deferred_Unlock_def Let_def example_world_def example_watched_def example_manager_def
      NewTenantManager_def)

subsection \<open>File changes\<close>






subsection \<open>Invalidation\<close>

lemma InvalidateTenantConfig_unlocked:
  assumes "unlocked (mu s)"
  shows "InvalidateTenantConfig tenantID s =
     Returns ()
       (case fmlookup (watchers s) tenantID of
          Some cleanup \<Rightarrow>
            s\<lparr>tenantConfigs := fmdrop tenantID (tenantConfigs s),
              watchers := fmdrop tenantID (watchers s),
              cleanups_run := finsert cleanup (cleanups_run s)\<rparr>
        | None \<Rightarrow> s\<lparr>tenantConfigs := fmdrop tenantID (tenantConfigs s)\<rparr>)"
  using assms
  by (simp add: InvalidateTenantConfig_def Lock_def Unlock_def deferred_Unlock_def
      unlocked_def run_cleanup_def Let_def split: option.splits)

text \<open>
  The part of the claim that holds in the running program: where the lock is free the
  cache is empty and no watcher is registered, and there the call changes nothing.
\<close>

lemma InvalidateTenantConfig_absent:
  assumes "unlocked (mu s)" "fmlookup (tenantConfigs s) tenantID = None"
    "fmlookup (watchers s) tenantID = None"
  shows "InvalidateTenantConfig tenantID s = Returns () s"
proof -
  have "fmdrop tenantID (tenantConfigs s) = tenantConfigs s"
    using assms(2) by (simp add: fmdrop_idle fmdom_notI)
  then show ?thesis
    using assms(1,3) by (simp add: InvalidateTenantConfig_unlocked)
qed

lemma reachable_cached_Invalidate_blocks:
  assumes "reachable s" "fmlookup (tenantConfigs s) tenantID = Some p"
  shows "InvalidateTenantConfig tenantID s = Blocks s"
  using reachable_cached_is_locked [OF assms] by (rule locked_calls_block)

text \<open>
  Claim C7: \<open>InvalidateTenantConfig\<close> removes the tenant's cache entry and its watcher
  handle, and is idempotent.

  In the running program a tenant has a cache entry only after the call that stored it
  has stopped with the write lock held. There \<open>InvalidateTenantConfig\<close> waits for the
  lock and never returns; the entry is not removed. On the example world, after the
  first request for \<open>tenant1\<close>:
\<close>

theorem invalidate_of_cached_tenant_never_returns:
  "fmlookup
     (tenantConfigs
       (state_after (GetTenantConfig example_world Background ''tenant1'' example_manager)))
     ''tenant1'' = Some 1
   \<and> InvalidateTenantConfig ''tenant1''
        (state_after (GetTenantConfig example_world Background ''tenant1'' example_manager))
       = Blocks
          (state_after (GetTenantConfig example_world Background ''tenant1'' example_manager))"
  unfolding example_blocked_state
  by (simp add: InvalidateTenantConfig_def Lock_def)

subsection \<open>Shutdown\<close>

lemma Shutdown_unlocked:
  assumes "unlocked (mu s)"
  shows "Shutdown s =
     Returns () (s\<lparr>cleanups_run := cleanups_run s |\<union>| fmran (watchers s), watchers := fmempty\<rparr>)"
  using assms
  by (simp add: Shutdown_def Lock_def Unlock_def deferred_Unlock_def unlocked_def)

text \<open>
  Neither \<open>Shutdown\<close> nor \<open>InvalidateTenantConfig\<close> detaches a callback: the cleanup
  closures they call do not touch the watching provider.
\<close>

lemma Shutdown_keeps_attached: "attached (state_after (Shutdown s)) = attached s"
  by (simp add: Shutdown_def Lock_def Unlock_def deferred_Unlock_def)

lemma InvalidateTenantConfig_keeps_attached:
  "attached (state_after (InvalidateTenantConfig tenantID s)) = attached s"
  by (simp add: InvalidateTenantConfig_def Lock_def Unlock_def deferred_Unlock_def
      run_cleanup_def Let_def split: option.splits)

lemma reachable_cached_Shutdown_blocks:
  assumes "reachable s" "fmlookup (tenantConfigs s) tenantID = Some p"
  shows "Shutdown s = Blocks s"
  using reachable_cached_is_locked [OF assms] by (rule locked_calls_block)

text \<open>
  Claim C8: \<open>Shutdown\<close> stops every active watcher and empties the watcher map; the
  cache is unchanged, so a request after the shutdown is still answered from the cached
  provider.

  The code misses this twice. First, the cleanup function stored for a watcher only
  writes a log line, and nothing else stops the watching provider: on the manager with
  \<open>tenant1\<close> cached and watched, \<open>Shutdown\<close> returns with the callback still attached,
  and the next file event removes the cached provider. Second, in the running program
  (the example world after the first request for \<open>tenant1\<close>) the write lock is held for
  good, so \<open>Shutdown\<close> never returns, and a request after it waits as well.
\<close>

theorem shutdown_leaves_watcher_running:
  "returns (Shutdown example_watched)
   \<and> watchers (state_after (Shutdown example_watched)) = fmempty
   \<and> (''tenant1'', ''configs/tenant1/kratos.yaml'')
        |\<in>| attached (state_after (Shutdown example_watched))
   \<and> fmlookup (tenantConfigs (state_after (Shutdown example_watched))) ''tenant1'' = Some 1
   \<and> fmlookup
        (tenantConfigs
          (fst (watcher_callback ''tenant1'' ''configs/tenant1/kratos.yaml'' None
                 (state_after (Shutdown example_watched)))))
        ''tenant1'' = None
   \<and> Shutdown
        (state_after (GetTenantConfig example_world Background ''tenant1'' example_manager))
       = Blocks
          (state_after (GetTenantConfig example_world Background ''tenant1'' example_manager))
   \<and> GetTenantConfig example_world Background ''tenant1''
        (state_after (GetTenantConfig example_world Background ''tenant1'' example_manager))
       = Blocks
          (state_after (GetTenantConfig example_world Background ''tenant1'' example_manager))"
proof -
  have r: "Shutdown example_watched =
     Returns ()
       (example_watched
          \<lparr>cleanups_run := cleanups_run example_watched |\<union>| fmran (watchers example_watched),
           watchers := fmempty\<rparr>)"
    using example_watched_unlocked by (rule Shutdown_unlocked)
  have a: "returns (Shutdown example_watched)"
    by (simp add: r)
  have b: "watchers (state_after (Shutdown example_watched)) = fmempty"
    by (simp add: r)
  have c: "(''tenant1'', ''configs/tenant1/kratos.yaml'')
        |\<in>| attached (state_after (Shutdown example_watched))"
    by (simp add: Shutdown_keeps_attached) (simp add: example_watched_def)
  have d: "fmlookup (tenantConfigs (state_after (Shutdown example_watched))) ''tenant1'' = Some 1"
    by (simp add: r) (simp add: example_watched_def)
  have e: "fmlookup
        (tenantConfigs
          (fst (watcher_callback ''tenant1'' ''configs/tenant1/kratos.yaml'' None
                 (state_after (Shutdown example_watched)))))
        ''tenant1'' = None"
    by (simp add: watcher_callback_def invalidateTenantConfigUnsafe_def)
  have f: "Shutdown
        (state_after (GetTenantConfig example_world Background ''tenant1'' example_manager))
       = Blocks
          (state_after (GetTenantConfig example_world Background ''tenant1'' example_manager))"
    unfolding example_blocked_state by (simp add: Shutdown_def Lock_def)
  have g: "GetTenantConfig example_world Background ''tenant1''
        (state_after (GetTenantConfig example_world Background ''tenant1'' example_manager))
       = Blocks
          (state_after (GetTenantConfig example_world Background ''tenant1'' example_manager))"
    unfolding example_blocked_state by (simp add: GetTenantConfig_def RLock_def)
  show ?thesis
    using a b c d e f g by blast
qed

subsection \<open>The default tenant\<close>

lemma setupTenantWatcher_default_uncached:
  assumes "default_uncached s" "t \<noteq> ''default''"
  shows "default_uncached (state_after (setupTenantWatcher w t path s))"
  using assms
  by (auto simp add: setupTenantWatcher_def setupTenantWatcher_body_def Lock_def Unlock_def
      deferred_Unlock_def run_cleanup_def Let_def default_uncached_def
      split: option.splits sum.splits)

lemma loadTenantConfig_default_uncached:
  assumes "default_uncached s" "t \<noteq> ''default''"
  shows "default_uncached (state_after (loadTenantConfig w ctx t s))"
proof (cases "writer (mu s) \<or> 0 < readers (mu s)")
  case True
  then show ?thesis using assms by (simp add: loadTenantConfig_def Lock_def)
next
  case False
  let ?s1 = "s\<lparr>mu := (mu s)\<lparr>writer := True\<rparr>\<rparr>"
  have l: "loadTenantConfig w ctx t s = deferred_Unlock (loadTenantConfig_body w ctx t ?s1)"
    using False by (simp add: loadTenantConfig_def Lock_def)
  have blocked: "setupTenantWatcher w t path' s' = Blocks s'" if "writer (mu s')" for path' s'
    using that by (simp add: setupTenantWatcher_def Lock_def)
  show ?thesis
    using assms False
    by (auto simp add: l loadTenantConfig_body_def deferred_Unlock_def Unlock_def Let_def
        blocked default_uncached_def split: option.splits sum.splits)
qed

lemma GetTenantConfig_default_uncached:
  assumes "default_uncached s"
  shows "default_uncached (state_after (GetTenantConfig w ctx t s))"
proof (cases "t = ''default''")
  case True
  then show ?thesis using assms by (simp add: GetTenantConfig_def)
next
  case False
  show ?thesis
  proof (cases "writer (mu s)")
    case True
    then show ?thesis using assms False by (simp add: GetTenantConfig_def RLock_def)
  next
    case nw: False
    have g: "GetTenantConfig w ctx t s =
             (case fmlookup (tenantConfigs s) t of Some provider \<Rightarrow> Returns provider s
              | None \<Rightarrow> loadTenantConfig w ctx t s)"
      using False nw by (simp add: GetTenantConfig_def RLock_def RUnlock_def split: option.splits)
    show ?thesis
      using assms False loadTenantConfig_default_uncached [of s t w ctx]
      by (simp add: g split: option.splits)
  qed
qed

lemma InvalidateTenantConfig_default_uncached:
  assumes "default_uncached s"
  shows "default_uncached (state_after (InvalidateTenantConfig t s))"
  using assms
  by (auto simp add: InvalidateTenantConfig_def Lock_def Unlock_def deferred_Unlock_def
      run_cleanup_def Let_def default_uncached_def split: option.splits)

lemma GetTenantConfigStats_default_uncached:
  assumes "default_uncached s"
  shows "default_uncached (state_after (GetTenantConfigStats s))"
  using assms
  by (auto simp add: GetTenantConfigStats_def RLock_def RUnlock_def deferred_RUnlock_def
      default_uncached_def)

lemma Shutdown_default_uncached:
  assumes "default_uncached s"
  shows "default_uncached (state_after (Shutdown s))"
  using assms
  by (auto simp add: Shutdown_def Lock_def Unlock_def deferred_Unlock_def default_uncached_def)

lemma attached_not_default:
  assumes "default_uncached s" "(t, path) |\<in>| attached s"
  shows "t \<noteq> ''default''"
  using assms by (force simp add: default_uncached_def)

lemma watcher_callback_default_uncached:
  assumes "default_uncached s"
  shows "default_uncached (fst (watcher_callback t path err s))"
  using assms
  by (auto simp add: watcher_callback_def invalidateTenantConfigUnsafe_def default_uncached_def
      split: option.splits)

lemma run_task_default_uncached:
  assumes "default_uncached s" "t \<noteq> ''default''"
  shows "default_uncached (state_after (run_task w (Preload t path) s))"
  using assms
  by (auto simp add: preloadTenantConfig_def Lock_def Unlock_def default_uncached_def
      split: sum.splits)

lemma reachable_default_uncached: "reachable s \<Longrightarrow> default_uncached s"
proof (induction rule: reachable.induct)
  case (init base dir)
  show ?case by (simp add: default_uncached_def NewTenantManager_def)
next
  case (resolve s w ctx tenantID)
  then show ?case by (simp add: GetTenantConfig_default_uncached)
next
  case (load s tenantID w ctx)
  then show ?case by (simp add: loadTenantConfig_default_uncached)
next
  case (invalidate s tenantID)
  then show ?case by (simp add: InvalidateTenantConfig_default_uncached)
next
  case (statistics s)
  then show ?case by (simp add: GetTenantConfigStats_default_uncached)
next
  case (shutdown s)
  then show ?case by (simp add: Shutdown_default_uncached)
next
  case (file_event s tenantID configPath err)
  then show ?case by (simp add: watcher_callback_default_uncached)
next
  case (preload s tenantID configPath w)
  then show ?case
    using attached_not_default [of s tenantID configPath]
    by (simp add: run_task_default_uncached del: run_task.simps)
qed

text \<open>
  Claim C4: \<open>GetTenantConfig\<close> for \<open>default\<close> always returns the base provider, and in
  every reachable state of the manager the cache has no entry under \<open>default\<close>:
  resolving, preloading and invalidating never create one.
\<close>

theorem default_tenant_never_cached:
  "reachable s \<Longrightarrow>
     GetTenantConfig w ctx ''default'' s = Returns (baseConfig s ctx) s
     \<and> fmlookup (tenantConfigs s) ''default'' = None
     \<and> ''default'' |\<notin>| fmdom (tenantConfigs s)"
  using reachable_default_uncached [of s]
  by (auto simp add: GetTenantConfig_def default_uncached_def)

theorem default_tenant_never_cached_witness:
  "reachable (state_after (GetTenantConfig example_world Background ''tenant1'' example_manager))
   \<and> fmlookup
        (tenantConfigs
          (state_after (GetTenantConfig example_world Background ''tenant1'' example_manager)))
        ''tenant1'' = Some 1
   \<and> GetTenantConfig example_world Background ''default''
        (state_after (GetTenantConfig example_world Background ''tenant1'' example_manager))
       = Returns 0
          (state_after (GetTenantConfig example_world Background ''tenant1'' example_manager))
   \<and> fmlookup
        (tenantConfigs
          (state_after (GetTenantConfig example_world Background ''tenant1'' example_manager)))
        ''default'' = None"
proof -
  let ?s1 = "state_after (GetTenantConfig example_world Background ''tenant1'' example_manager)"
  have "reachable example_manager"
    unfolding example_manager_def by (rule reachable.init)
  then have r: "reachable ?s1"
    by (rule reachable.resolve)
  have e: "?s1 = example_manager
       \<lparr>mu := \<lparr>writer = True, readers = 0\<rparr>,
        tenantConfigs := fmupd ''tenant1'' 1 fmempty\<rparr>"
    by (simp add: example_miss example_load_blocks)
  have l: "fmlookup (tenantConfigs ?s1) ''tenant1'' = Some 1"
    by (subst e) simp
  have b: "baseConfig ?s1 Background = 0"
    by (subst e) (simp add: example_manager_def NewTenantManager_def)
  show ?thesis
    using default_tenant_never_cached [OF r, of example_world Background, unfolded b] r l
    by blast
qed

end
